theory Spec2Isabelle
  imports Main "HOL-Library.AList" "HOL-Library.Sublist"
begin

section \<open>Python values\<close>

text \<open>
  The module \<^verbatim>\<open>eensight/workflow/steps/_base.py\<close> defines one class, \<^verbatim>\<open>WorkflowStep\<close>,
  with a constructor and three lifecycle methods. The constructor works on strings,
  on \<^verbatim>\<open>None\<close> and on dictionaries with string keys.

  A Python \<^verbatim>\<open>dict\<close> keeps its keys in insertion order and holds every key once. It is
  modelled as an association list; storing under a key is \<^const>\<open>AList.update\<close>, which
  replaces the value in place when the key is there and appends the pair otherwise,
  as \<^verbatim>\<open>d[key] = val\<close> does. A dictionary that a caller passes in has distinct keys.
\<close>

type_synonym 'v dict = "(string \<times> 'v) list"

text \<open>
  An optional dictionary argument as Python can pass it: \<^verbatim>\<open>None\<close>, or a dictionary,
  whose keys are distinct.
\<close>

definition well_formed :: "'v dict option \<Rightarrow> bool" where
  "well_formed arg = (case arg of None \<Rightarrow> True | Some d \<Rightarrow> distinct (map fst d))"

text \<open>An optional argument is \<^verbatim>\<open>None\<close> or a value: \<^typ>\<open>'a option\<close>.\<close>

text \<open>
  Truthiness, as \<^verbatim>\<open>if x:\<close> and \<^verbatim>\<open>if not x:\<close> read it, of an optional string or
  dictionary: \<^verbatim>\<open>None\<close>, the empty string and the empty dictionary are false.
\<close>

definition truthy :: "'a list option \<Rightarrow> bool" where
  "truthy x = (case x of None \<Rightarrow> False | Some v \<Rightarrow> v \<noteq> [])"

text \<open>The comprehension \<^verbatim>\<open>{val: val for val in vals}\<close>.\<close>

definition identity_dict :: "string list \<Rightarrow> string dict" where
  "identity_dict vals = fold (\<lambda>val d. AList.update val val d) vals []"

text \<open>
  The comprehension \<^verbatim>\<open>{key: f'{val}_{ml_stage}' for key, val in d.items()}\<close>.
\<close>

definition suffix_values :: "string \<Rightarrow> string dict \<Rightarrow> string dict" where
  "suffix_values ml_stage d =
     fold (\<lambda>(key, val) acc. AList.update key (val @ ''_'' @ ml_stage) acc) d []"

text \<open>
  The values an attribute of a step holds. The catalog and the parameters are opaque
  to this module (types \<^typ>\<open>'c\<close> and \<^typ>\<open>'p\<close>); the values of \<^verbatim>\<open>tags\<close> are of any
  type (\<^typ>\<open>'t\<close>).
\<close>

datatype ('c, 'p, 't) pyval =
    PyNone
  | PyStr string
  | PyDict "string dict"
  | PyTags "'t dict"
  | PyCatalog 'c
  | PyParameters 'p

definition opt_str :: "string option \<Rightarrow> ('c, 'p, 't) pyval" where
  "opt_str x = (case x of None \<Rightarrow> PyNone | Some s \<Rightarrow> PyStr s)"

text \<open>
  The exceptions: the two that the module raises, each with its message, and the
  \<^verbatim>\<open>TypeError\<close> of \<^verbatim>\<open>abc\<close> for a class with abstract methods, whose message names the
  class and those methods in a wording that depends on the interpreter's version; it
  is kept as the class name and the method names.
\<close>

datatype error =
    ValueError string
  | NotImplementedError string
  | TypeError string "string list"

section \<open>The class and its instances\<close>

text \<open>
  A step type is a subclass of \<^verbatim>\<open>WorkflowStep\<close>: its \<^verbatim>\<open>__name__\<close> and the two class
  attributes \<^verbatim>\<open>default_requires\<close> and \<^verbatim>\<open>default_provides\<close>, which are \<^verbatim>\<open>[]\<close> in the
  base class and which a subclass may set.
\<close>

record step_class =
  class_name :: string
  default_requires :: "string list"
  default_provides :: "string list"

text \<open>
  An instance is its attribute dictionary (\<^verbatim>\<open>self.__dict__\<close>): attribute names to
  values. A name that is not in the domain is an attribute that has not been set.
\<close>

type_synonym ('c, 'p, 't) step_instance = "string \<rightharpoonup> ('c, 'p, 't) pyval"

section \<open>The constructor\<close>

text \<open>
  \<^verbatim>\<open>WorkflowStep.__init__\<close>, statement by statement. The result is the exception
  raised, if any, and the attribute dictionary of \<^verbatim>\<open>self\<close> as the method leaves it.
  \<^verbatim>\<open>self.default_requires\<close> reads the class attribute of the type of \<^verbatim>\<open>self\<close>.
  Where \<^verbatim>\<open>requires\<close> is truthy it is a dictionary and where \<^verbatim>\<open>ml_stage\<close> is truthy it
  is a string, so the \<open>None\<close> branches of the two inner case distinctions are never
  taken.
\<close>

definition init ::
  "step_class \<Rightarrow> ('c, 'p, 't) step_instance \<Rightarrow> 'c \<Rightarrow> 'p \<Rightarrow> string option \<Rightarrow>
   string dict option \<Rightarrow> string dict option \<Rightarrow> string option \<Rightarrow> string dict option \<Rightarrow>
   string option \<Rightarrow> string option \<Rightarrow> string option \<Rightarrow> 't dict option \<Rightarrow>
   error option \<times> ('c, 'p, 't) step_instance" where
  "init cls self catalog parameters name requires provides ml_stage rebind
        run_id tracking_uri experiment_name tags =
     (let requires1 = (if \<not> truthy requires then identity_dict (default_requires cls)
                       else (case requires of Some d \<Rightarrow> d | None \<Rightarrow> []));
          requires2 = (if truthy ml_stage
                       then (case ml_stage of Some s \<Rightarrow> suffix_values s requires1
                                            | None \<Rightarrow> requires1)
                       else requires1);
          provides1 = (if \<not> truthy provides then identity_dict (default_provides cls)
                       else (case provides of Some d \<Rightarrow> d | None \<Rightarrow> []));
          provides2 = (if truthy ml_stage
                       then (case ml_stage of Some s \<Rightarrow> suffix_values s provides1
                                            | None \<Rightarrow> provides1)
                       else provides1);
          rebind1 = (case rebind of Some r \<Rightarrow> r | None \<Rightarrow> [])
      in if run_id \<noteq> None \<and> tracking_uri = None
         then (Some (ValueError
                 ''If tracking is enabled, a `tracking_uri` must be provided''), self)
         else
           (let experiment_name1 =
                  (case experiment_name of Some e \<Rightarrow> e | None \<Rightarrow> ''Default'');
                tags1 = (case tags of Some t \<Rightarrow> t | None \<Rightarrow> [])
            in (None,
                self(''catalog'' \<mapsto> PyCatalog catalog,
                     ''parameters'' \<mapsto> PyParameters parameters,
                     ''name'' \<mapsto> opt_str name,
                     ''requires'' \<mapsto> PyDict requires2,
                     ''provides'' \<mapsto> PyDict provides2,
                     ''ml_stage'' \<mapsto> opt_str ml_stage,
                     ''rebind'' \<mapsto> PyDict rebind1,
                     ''run_id'' \<mapsto> opt_str run_id,
                     ''tracking_uri'' \<mapsto> opt_str tracking_uri,
                     ''experiment_name'' \<mapsto> PyStr experiment_name1,
                     ''tags'' \<mapsto> PyTags tags1))))"

text \<open>
  Creating a step, \<^verbatim>\<open>cls(catalog, parameters, ...)\<close>, for a class that can be
  instantiated: a new object with no attributes is made and \<^verbatim>\<open>__init__\<close> runs on it.
  An exception leaves the caller without an object; otherwise the caller gets the
  object.
\<close>

definition construct ::
  "step_class \<Rightarrow> 'c \<Rightarrow> 'p \<Rightarrow> string option \<Rightarrow>
   string dict option \<Rightarrow> string dict option \<Rightarrow> string option \<Rightarrow> string dict option \<Rightarrow>
   string option \<Rightarrow> string option \<Rightarrow> string option \<Rightarrow> 't dict option \<Rightarrow>
   error + ('c, 'p, 't) step_instance" where
  "construct cls catalog parameters name requires provides ml_stage rebind
        run_id tracking_uri experiment_name tags =
     (case init cls Map.empty catalog parameters name requires provides ml_stage rebind
             run_id tracking_uri experiment_name tags of
        (Some e, _) \<Rightarrow> Inl e
      | (None, self) \<Rightarrow> Inr self)"

section \<open>The lifecycle methods\<close>

text \<open>
  \<^verbatim>\<open>pre_execute\<close> and \<^verbatim>\<open>post_execute\<close> are \<^verbatim>\<open>pass\<close>: they return and change nothing.
\<close>

definition pre_execute :: "('c, 'p, 't) step_instance \<Rightarrow> error option \<times> ('c, 'p, 't) step_instance" where
  "pre_execute self = (None, self)"

definition post_execute :: "('c, 'p, 't) step_instance \<Rightarrow> error option \<times> ('c, 'p, 't) step_instance" where
  "post_execute self = (None, self)"

text \<open>
  The body of \<^verbatim>\<open>WorkflowStep.execute\<close>, which is what runs when \<^verbatim>\<open>execute\<close> is
  called on an object whose class does not define the method itself. The two adjacent
  string literals of the source are one literal, with no space between \<^verbatim>\<open>and\<close> and
  \<^verbatim>\<open>it\<close>; \<^verbatim>\<open>format\<close> puts \<^verbatim>\<open>self.__class__.__name__\<close> in the place of \<^verbatim>\<open>{}\<close>.
\<close>

definition execute :: "step_class \<Rightarrow> ('c, 'p, 't) step_instance \<Rightarrow> error option \<times> ('c, 'p, 't) step_instance" where
  "execute cls self =
     (Some (NotImplementedError
        (''`'' @ class_name cls @
         ''` is a subclass of WorkflowStep andit must implement the `execute` method'')),
      self)"

section \<open>Abstract classes and method resolution\<close>

text \<open>
  \<^verbatim>\<open>WorkflowStep\<close> derives from \<^verbatim>\<open>abc.ABC\<close> and its \<^verbatim>\<open>execute\<close> is decorated with
  \<^verbatim>\<open>@abc.abstractmethod\<close>. A subclass is the class attributes above together with
  its own \<^verbatim>\<open>execute\<close>, if its body defines one (\<open>None\<close>: it does not, and the name
  resolves to \<^verbatim>\<open>WorkflowStep.execute\<close>). \<^verbatim>\<open>WorkflowStep\<close> itself is the case \<open>None\<close>
  with two empty default lists.
\<close>

record ('c, 'p, 't) step_subclass =
  attrs :: step_class
  execute_impl ::
    "(('c, 'p, 't) step_instance \<Rightarrow> error option \<times> ('c, 'p, 't) step_instance) option"

text \<open>
  \<^verbatim>\<open>__abstractmethods__\<close>, as \<^verbatim>\<open>ABCMeta\<close> computes it for the class: the abstract
  methods that the class has not overridden.
\<close>

definition abstract_methods :: "('c, 'p, 't) step_subclass \<Rightarrow> string list" where
  "abstract_methods k = (case execute_impl k of None \<Rightarrow> [''execute''] | Some f \<Rightarrow> [])"

text \<open>
  The call \<^verbatim>\<open>cls(catalog, parameters, ...)\<close> in full. Creating the object fails with
  a \<^verbatim>\<open>TypeError\<close> when the class still has abstract methods, before \<^verbatim>\<open>__init__\<close> runs;
  for every other class the call is \<^const>\<open>construct\<close>.
\<close>

definition instantiate ::
  "('c, 'p, 't) step_subclass \<Rightarrow> 'c \<Rightarrow> 'p \<Rightarrow> string option \<Rightarrow>
   string dict option \<Rightarrow> string dict option \<Rightarrow> string option \<Rightarrow> string dict option \<Rightarrow>
   string option \<Rightarrow> string option \<Rightarrow> string option \<Rightarrow> 't dict option \<Rightarrow>
   error + ('c, 'p, 't) step_instance" where
  "instantiate k catalog parameters name requires provides ml_stage rebind
        run_id tracking_uri experiment_name tags =
     (if abstract_methods k \<noteq> []
      then Inl (TypeError (class_name (attrs k)) (abstract_methods k))
      else construct (attrs k) catalog parameters name requires provides ml_stage rebind
             run_id tracking_uri experiment_name tags)"

text \<open>
  The call \<^verbatim>\<open>self.execute()\<close> on an object of class \<open>k\<close>: the method of the class
  where it defines one, the body of \<^verbatim>\<open>WorkflowStep.execute\<close> otherwise. A method of
  the class that does nothing but \<^verbatim>\<open>super().execute()\<close> is
  \<open>Some (execute (attrs k))\<close>.
\<close>

definition call_execute ::
  "('c, 'p, 't) step_subclass \<Rightarrow> ('c, 'p, 't) step_instance \<Rightarrow>
   error option \<times> ('c, 'p, 't) step_instance" where
  "call_execute k self =
     (case execute_impl k of None \<Rightarrow> execute (attrs k) self | Some f \<Rightarrow> f self)"

section \<open>Binding resolution, as one function\<close>

text \<open>
  The constructor computes \<^verbatim>\<open>requires\<close> and \<^verbatim>\<open>provides\<close> by the same two statements,
  from the class's default list, the argument and \<^verbatim>\<open>ml_stage\<close>. This function names
  that computation, so that the lemmas below can say what the constructor stores
  (\<open>init_returns\<close> proves that it does).
\<close>

definition resolved :: "string list \<Rightarrow> string dict option \<Rightarrow> string option \<Rightarrow> string dict" where
  "resolved defaults arg ml_stage =
     (let d = (case arg of None \<Rightarrow> identity_dict defaults
                        | Some m \<Rightarrow> if m = [] then identity_dict defaults else m)
      in case ml_stage of None \<Rightarrow> d
                        | Some s \<Rightarrow> if s = [] then d else suffix_values s d)"

section \<open>Dictionary comprehensions\<close>

lemma update_fresh: "k \<notin> fst ` set al \<Longrightarrow> AList.update k v al = al @ [(k, v)]"
  by (induction al) auto

lemma fold_update_distinct:
  "distinct (map fst xs) \<Longrightarrow> fst ` set xs \<inter> fst ` set acc = {} \<Longrightarrow>
   fold (\<lambda>(k, v) acc. AList.update k (f v) acc) xs acc = acc @ map (\<lambda>(k, v). (k, f v)) xs"
proof (induction xs arbitrary: acc)
  case Nil
  then show ?case by simp
next
  case (Cons x xs)
  obtain k v where x: "x = (k, v)" by (cases x)
  from Cons.prems x have fresh: "k \<notin> fst ` set acc" by auto
  have step: "AList.update k (f v) acc = acc @ [(k, f v)]"
    using fresh by (rule update_fresh)
  from Cons.prems x have d: "distinct (map fst xs)" by simp
  from Cons.prems x have disj: "fst ` set xs \<inter> fst ` set (acc @ [(k, f v)]) = {}"
    by (auto simp: image_iff)
  show ?case using Cons.IH [OF d disj] by (simp add: x step)
qed

lemma suffix_values_map:
  "distinct (map fst d) \<Longrightarrow> suffix_values s d = map (\<lambda>(k, v). (k, v @ ''_'' @ s)) d"
  unfolding suffix_values_def using fold_update_distinct [of d "[]" "\<lambda>v. v @ ''_'' @ s"] by simp

lemma fold_identity_distinct:
  "distinct (map fst acc) \<Longrightarrow> distinct (map fst (fold (\<lambda>val d. AList.update val val d) vals acc))"
  by (induction vals arbitrary: acc) (simp_all add: distinct_update)

lemma fold_identity_map_of:
  "map_of (fold (\<lambda>val d. AList.update val val d) vals acc) k =
     (if k \<in> set vals then Some k else map_of acc k)"
  by (induction vals arbitrary: acc) (auto simp: update_conv')

lemma identity_dict_distinct: "distinct (map fst (identity_dict vals))"
  unfolding identity_dict_def by (rule fold_identity_distinct) simp

lemma identity_dict_map_of:
  "map_of (identity_dict vals) k = (if k \<in> set vals then Some k else None)"
  unfolding identity_dict_def by (simp add: fold_identity_map_of)

lemma identity_dict_set: "set (identity_dict vals) = (\<lambda>v. (v, v)) ` set vals"
proof -
  have "(k, v) \<in> set (identity_dict vals) \<longleftrightarrow> (k, v) \<in> (\<lambda>v. (v, v)) ` set vals" for k v
    using map_of_eq_Some_iff [OF identity_dict_distinct, of vals k v]
    by (auto simp: identity_dict_map_of split: if_splits)
  then show ?thesis by auto
qed

lemma identity_dict_distinct_vals:
  "distinct vals \<Longrightarrow> identity_dict vals = map (\<lambda>v. (v, v)) vals"
  unfolding identity_dict_def
  using fold_update_distinct [of "map (\<lambda>v. (v, v)) vals" "[]" "\<lambda>v. v"]
  by (simp add: comp_def fold_map case_prod_unfold)

section \<open>The two outcomes of the constructor\<close>

lemma init_raises:
  "init cls self c p n rq pv ms rb (Some r) None en tg =
     (Some (ValueError ''If tracking is enabled, a `tracking_uri` must be provided''), self)"
  by (simp add: init_def Let_def)

lemma init_returns:
  assumes "run_id = None \<or> tracking_uri \<noteq> None"
  shows "init cls self c p n rq pv ms rb run_id tracking_uri en tg =
     (None,
      self(''catalog'' \<mapsto> PyCatalog c,
           ''parameters'' \<mapsto> PyParameters p,
           ''name'' \<mapsto> opt_str n,
           ''requires'' \<mapsto> PyDict (resolved (default_requires cls) rq ms),
           ''provides'' \<mapsto> PyDict (resolved (default_provides cls) pv ms),
           ''ml_stage'' \<mapsto> opt_str ms,
           ''rebind'' \<mapsto> PyDict (case rb of Some r \<Rightarrow> r | None \<Rightarrow> []),
           ''run_id'' \<mapsto> opt_str run_id,
           ''tracking_uri'' \<mapsto> opt_str tracking_uri,
           ''experiment_name'' \<mapsto> PyStr (case en of Some e \<Rightarrow> e | None \<Rightarrow> ''Default''),
           ''tags'' \<mapsto> PyTags (case tg of Some t \<Rightarrow> t | None \<Rightarrow> [])))"
proof -
  have rq: "(if \<not> truthy a then identity_dict ds else (case a of Some d \<Rightarrow> d | None \<Rightarrow> [])) =
            (case a of None \<Rightarrow> identity_dict ds | Some m \<Rightarrow> if m = [] then identity_dict ds else m)"
    for a :: "string dict option" and ds
    by (simp add: truthy_def split: option.splits)
  have st: "(if truthy ms then (case ms of Some s \<Rightarrow> suffix_values s d | None \<Rightarrow> d) else d) =
            (case ms of None \<Rightarrow> d | Some s \<Rightarrow> if s = [] then d else suffix_values s d)"
    for d
    by (simp add: truthy_def split: option.splits)
  from assms have ok: "\<not> (run_id \<noteq> None \<and> tracking_uri = None)" by auto
  show ?thesis
    unfolding init_def Let_def resolved_def rq st using ok by simp
qed

lemma construct_raises:
  "construct cls c p n rq pv ms rb (Some r) None en tg =
     Inl (ValueError ''If tracking is enabled, a `tracking_uri` must be provided'')"
  by (simp add: construct_def init_raises)

lemma construct_returns:
  assumes "run_id = None \<or> tracking_uri \<noteq> None"
  shows "construct cls c p n rq pv ms rb run_id tracking_uri en tg =
     Inr [''catalog'' \<mapsto> PyCatalog c,
           ''parameters'' \<mapsto> PyParameters p,
           ''name'' \<mapsto> opt_str n,
           ''requires'' \<mapsto> PyDict (resolved (default_requires cls) rq ms),
           ''provides'' \<mapsto> PyDict (resolved (default_provides cls) pv ms),
           ''ml_stage'' \<mapsto> opt_str ms,
           ''rebind'' \<mapsto> PyDict (case rb of Some r \<Rightarrow> r | None \<Rightarrow> []),
           ''run_id'' \<mapsto> opt_str run_id,
           ''tracking_uri'' \<mapsto> opt_str tracking_uri,
           ''experiment_name'' \<mapsto> PyStr (case en of Some e \<Rightarrow> e | None \<Rightarrow> ''Default''),
           ''tags'' \<mapsto> PyTags (case tg of Some t \<Rightarrow> t | None \<Rightarrow> [])]"
  unfolding construct_def init_returns [OF assms] by simp

lemma init_populates:
  assumes "run_id = None \<or> tracking_uri \<noteq> None"
  shows "dom (snd (init cls self c p n rq pv ms rb run_id tracking_uri en tg)) =
     dom self \<union> {''catalog'', ''parameters'', ''name'', ''requires'', ''provides'', ''ml_stage'',
       ''rebind'', ''run_id'', ''tracking_uri'', ''experiment_name'', ''tags''}"
  unfolding init_returns [OF assms] by auto

section \<open>What binding resolution computes\<close>

lemma resolved_no_stage:
  "resolved ds a None =
     (case a of None \<Rightarrow> identity_dict ds | Some m \<Rightarrow> if m = [] then identity_dict ds else m)"
  by (simp add: resolved_def)

lemma resolved_empty_stage: "resolved ds a (Some []) = resolved ds a None"
  by (simp add: resolved_def)

lemma resolved_empty_arg: "resolved ds (Some []) ms = resolved ds None ms"
  by (simp add: resolved_def)

lemma resolved_distinct:
  "well_formed a \<Longrightarrow> distinct (map fst (resolved ds a None))"
  by (simp add: resolved_no_stage well_formed_def identity_dict_distinct split: option.splits)

lemma resolved_stage:
  assumes "s \<noteq> []" and "well_formed a"
  shows "resolved ds a (Some s) = map (\<lambda>(k, v). (k, v @ ''_'' @ s)) (resolved ds a None)"
proof -
  have "resolved ds a (Some s) = suffix_values s (resolved ds a None)"
    using assms(1) by (simp add: resolved_def)
  then show ?thesis
    using suffix_values_map [OF resolved_distinct [OF assms(2)]] by simp
qed

lemma map_fst_suffix: "map (fst \<circ> (\<lambda>(k, v). (k, f v))) d = map fst d"
  by (induction d) auto

lemma resolved_keys:
  assumes "m \<noteq> []" and "distinct (map fst m)"
  shows "map fst (resolved ds (Some m) ms) = map fst m"
proof (cases "ms = None \<or> ms = Some []")
  case True
  then show ?thesis using assms(1) by (auto simp: resolved_def)
next
  case False
  then obtain s where s: "ms = Some s" "s \<noteq> []" by auto
  have "well_formed (Some m)" using assms(2) by (simp add: well_formed_def)
  from resolved_stage [OF s(2) this] show ?thesis
    using assms(1) by (simp add: s(1) resolved_no_stage map_fst_suffix)
qed

section \<open>The claims\<close>

text \<open>
  In what follows a construction succeeds exactly when \<open>run_id = None \<or> tracking_uri \<noteq> None\<close>
  (claim C4); the statements about the attributes of the new step carry that
  hypothesis. The step type of the examples has \<^verbatim>\<open>default_requires = ["meter_data"]\<close>
  and \<^verbatim>\<open>default_provides = ["clean_data"]\<close>.
\<close>

subsection \<open>C1: an explicit mapping and the default list\<close>

text \<open>
  Claim C1, as amended. Where an explicit, non-empty \<^verbatim>\<open>requires\<close> dictionary is
  passed, the keys of the resulting \<^verbatim>\<open>requires\<close> are exactly the keys of that
  dictionary, in its order, whatever the default list of the step type holds; the same
  for \<^verbatim>\<open>provides\<close>. An explicitly empty dictionary is not kept: \<^verbatim>\<open>if not requires\<close> is
  true of it, and the construction is the one with no dictionary passed, which reads
  the default list.
\<close>

theorem C1_explicit_mapping_keys:
  assumes "run_id = None \<or> tracking_uri \<noteq> None" and "distinct (map fst m)"
  shows "(m \<noteq> [] \<longrightarrow>
          (\<exists>self d. construct cls c p n (Some m) pv ms rb run_id tracking_uri en tg = Inr self \<and>
              self ''requires'' = Some (PyDict d) \<and> map fst d = map fst m) \<and>
          (\<exists>self d. construct cls c p n rq (Some m) ms rb run_id tracking_uri en tg = Inr self \<and>
              self ''provides'' = Some (PyDict d) \<and> map fst d = map fst m)) \<and>
         construct cls c p n (Some []) pv ms rb run_id tracking_uri en tg =
           construct cls c p n None pv ms rb run_id tracking_uri en tg \<and>
         construct cls c p n rq (Some []) ms rb run_id tracking_uri en tg =
           construct cls c p n rq None ms rb run_id tracking_uri en tg"
  using assms by (simp add: construct_returns resolved_keys resolved_empty_arg)

theorem C1_explicit_mapping_keys_witness:
  "(\<exists>self d. construct \<lparr>class_name = ''CleanStep'', default_requires = [''meter_data''],
       default_provides = [''clean_data'']\<rparr> () () None
               (Some [(''raw'', ''sensor_feed'')]) None (Some ''val'') None None None None
               (None :: unit dict option) = Inr self \<and>
       self ''requires'' = Some (PyDict d) \<and> map fst d = [''raw'']) \<and>
   (\<exists>self d. construct \<lparr>class_name = ''CleanStep'', default_requires = [''meter_data''],
       default_provides = [''clean_data'']\<rparr> () () None
               None (Some [(''raw'', ''sensor_feed'')]) (Some ''val'') None None None None
               (None :: unit dict option) = Inr self \<and>
       self ''provides'' = Some (PyDict d) \<and> map fst d = [''raw''])"
  using C1_explicit_mapping_keys [where run_id = None and tracking_uri = None
    and m = "[(''raw'', ''sensor_feed'')]" and c = "()" and p = "()" and n = None
    and cls = "\<lparr>class_name = ''CleanStep'', default_requires = [''meter_data''],
       default_provides = [''clean_data'']\<rparr>"
    and pv = None and rq = None and ms = "Some ''val''" and rb = None and en = None
    and tg = "None :: unit dict option"]
  by simp

text \<open>
  The claim as stated fails for the explicitly empty dictionary: the dictionary passed
  has no key, and the resulting \<^verbatim>\<open>requires\<close> has the key \<^verbatim>\<open>meter_data\<close> of the default
  list.
\<close>

theorem C1_explicit_empty_mapping_counterexample:
  "(case construct \<lparr>class_name = ''CleanStep'', default_requires = [''meter_data''],
       default_provides = [''clean_data'']\<rparr> () () None
               (Some []) None None None None None None (None :: unit dict option) of
      Inl e \<Rightarrow> None
    | Inr self \<Rightarrow> self ''requires'') = Some (PyDict [(''meter_data'', ''meter_data'')])"
  by (simp add: construct_def init_def truthy_def identity_dict_def)

subsection \<open>C2: the stage suffix\<close>

text \<open>
  Claim C2. With \<^verbatim>\<open>ml_stage\<close> set to a stage label \<open>s\<close> (a non-empty string; the empty
  string is the subject of claim C10), the resulting \<^verbatim>\<open>requires\<close> is the pre-suffix
  dictionary with \<^verbatim>\<open>_\<close> and \<open>s\<close> appended to every value, its keys and their order
  unchanged. The pre-suffix dictionary is the argument where that is a non-empty
  dictionary and the identity over \<^verbatim>\<open>default_requires\<close> otherwise; it is what the same
  construction stores without a stage. The same for \<^verbatim>\<open>provides\<close>.
\<close>

theorem C2_stage_suffix:
  assumes "s \<noteq> []" and "run_id = None \<or> tracking_uri \<noteq> None"
    and "well_formed rq" and "well_formed pv"
  shows "\<exists>self self0.
     construct cls c p n rq pv (Some s) rb run_id tracking_uri en tg = Inr self \<and>
     self ''requires'' = Some (PyDict (map (\<lambda>(key, val). (key, val @ ''_'' @ s))
        (case rq of None \<Rightarrow> identity_dict (default_requires cls)
         | Some m \<Rightarrow> if m = [] then identity_dict (default_requires cls) else m))) \<and>
     self ''provides'' = Some (PyDict (map (\<lambda>(key, val). (key, val @ ''_'' @ s))
        (case pv of None \<Rightarrow> identity_dict (default_provides cls)
         | Some m \<Rightarrow> if m = [] then identity_dict (default_provides cls) else m))) \<and>
     construct cls c p n rq pv None rb run_id tracking_uri en tg = Inr self0 \<and>
     self0 ''requires'' = Some (PyDict
        (case rq of None \<Rightarrow> identity_dict (default_requires cls)
         | Some m \<Rightarrow> if m = [] then identity_dict (default_requires cls) else m)) \<and>
     self0 ''provides'' = Some (PyDict
        (case pv of None \<Rightarrow> identity_dict (default_provides cls)
         | Some m \<Rightarrow> if m = [] then identity_dict (default_provides cls) else m))"
  using assms by (simp add: construct_returns resolved_stage resolved_no_stage)

theorem C2_stage_suffix_witness:
  "\<exists>self.
     construct \<lparr>class_name = ''CleanStep'', default_requires = [''meter_data''],
       default_provides = [''clean_data'']\<rparr> () () None None (Some [(''out'', ''clean'')]) (Some ''val'') None None None
       None (None :: unit dict option) = Inr self \<and>
     self ''requires'' = Some (PyDict [(''meter_data'', ''meter_data_val'')]) \<and>
     self ''provides'' = Some (PyDict [(''out'', ''clean_val'')])"
  using C2_stage_suffix [where s = "''val''" and run_id = None and tracking_uri = None
    and rq = None and pv = "Some [(''out'', ''clean'')]" and c = "()" and p = "()"
    and n = None and cls = "\<lparr>class_name = ''CleanStep'', default_requires = [''meter_data''],
       default_provides = [''clean_data'']\<rparr>" and rb = None and en = None
    and tg = "None :: unit dict option"]
  by (auto simp: well_formed_def identity_dict_def)

subsection \<open>C3: the identity mapping over the default lists\<close>

text \<open>
  Claim C3. With no \<^verbatim>\<open>requires\<close>, no \<^verbatim>\<open>provides\<close> and no \<^verbatim>\<open>ml_stage\<close>, the resulting
  \<^verbatim>\<open>requires\<close> is the identity mapping over \<^verbatim>\<open>default_requires\<close>: its keys are
  distinct and its items are exactly the pairs of a default name with itself; where the
  default list has no name twice, the dictionary lists these pairs in the order of the
  list. The same for \<^verbatim>\<open>provides\<close> and \<^verbatim>\<open>default_provides\<close>. This holds for every default
  list, the non-empty ones among them.
\<close>

theorem C3_default_identity:
  assumes "run_id = None \<or> tracking_uri \<noteq> None"
  shows "\<exists>self rq pv.
     construct cls c p n None None None rb run_id tracking_uri en tg = Inr self \<and>
     self ''requires'' = Some (PyDict rq) \<and> self ''provides'' = Some (PyDict pv) \<and>
     distinct (map fst rq) \<and> set rq = (\<lambda>v. (v, v)) ` set (default_requires cls) \<and>
     distinct (map fst pv) \<and> set pv = (\<lambda>v. (v, v)) ` set (default_provides cls) \<and>
     (distinct (default_requires cls) \<longrightarrow> rq = map (\<lambda>v. (v, v)) (default_requires cls)) \<and>
     (distinct (default_provides cls) \<longrightarrow> pv = map (\<lambda>v. (v, v)) (default_provides cls))"
  using assms
  by (simp add: construct_returns resolved_no_stage identity_dict_distinct identity_dict_set
      identity_dict_distinct_vals)

theorem C3_default_identity_witness:
  "\<exists>self. construct \<lparr>class_name = ''CleanStep'', default_requires = [''meter_data''],
       default_provides = [''clean_data'']\<rparr> () () None None None None None None None None
       (None :: unit dict option) = Inr self \<and>
     self ''requires'' = Some (PyDict [(''meter_data'', ''meter_data'')]) \<and>
     self ''provides'' = Some (PyDict [(''clean_data'', ''clean_data'')])"
  using C3_default_identity [where run_id = None and tracking_uri = None
    and c = "()" and p = "()" and n = None and cls = "\<lparr>class_name = ''CleanStep'', default_requires = [''meter_data''],
       default_provides = [''clean_data'']\<rparr>" and rb = None and en = None
    and tg = "None :: unit dict option"]
  by auto

subsection \<open>C4: the tracking validation\<close>

text \<open>
  Claim C4. Construction raises the invalid-configuration error, which in the code is
  a \<^verbatim>\<open>ValueError\<close> with the message below, if and only if \<^verbatim>\<open>run_id\<close> is not \<^verbatim>\<open>None\<close>
  and \<^verbatim>\<open>tracking_uri\<close> is \<^verbatim>\<open>None\<close>. It raises nothing else, and it returns a step in
  every other case: both set, both unset, or a \<^verbatim>\<open>tracking_uri\<close> without a \<^verbatim>\<open>run_id\<close>.
\<close>

theorem C4_tracking_validation:
  "(construct cls c p n rq pv ms rb run_id tracking_uri en tg =
      Inl (ValueError ''If tracking is enabled, a `tracking_uri` must be provided''))
     = (run_id \<noteq> None \<and> tracking_uri = None) \<and>
   (\<exists>e. construct cls c p n rq pv ms rb run_id tracking_uri en tg = Inl e)
     = (run_id \<noteq> None \<and> tracking_uri = None) \<and>
   (\<exists>self. construct cls c p n rq pv ms rb run_id tracking_uri en tg = Inr self)
     = (run_id = None \<or> tracking_uri \<noteq> None)"
proof (cases "run_id = None \<or> tracking_uri \<noteq> None")
  case True
  then show ?thesis by (auto simp: construct_returns)
next
  case False
  then obtain r where "run_id = Some r" "tracking_uri = None" by auto
  then show ?thesis by (simp add: construct_raises)
qed

theorem C4_tracking_validation_witness:
  "construct \<lparr>class_name = ''CleanStep'', default_requires = [''meter_data''],
       default_provides = [''clean_data'']\<rparr> () () None None None None None (Some ''abc'') None None
     (None :: unit dict option) =
     Inl (ValueError ''If tracking is enabled, a `tracking_uri` must be provided'') \<and>
   (\<exists>self. construct \<lparr>class_name = ''CleanStep'', default_requires = [''meter_data''],
       default_provides = [''clean_data'']\<rparr> () () None None None None None (Some ''abc'') (Some ''http://mlflow'')
     None (None :: unit dict option) = Inr self) \<and>
   (\<exists>self. construct \<lparr>class_name = ''CleanStep'', default_requires = [''meter_data''],
       default_provides = [''clean_data'']\<rparr> () () None None None None None None None
     None (None :: unit dict option) = Inr self) \<and>
   (\<exists>self. construct \<lparr>class_name = ''CleanStep'', default_requires = [''meter_data''],
       default_provides = [''clean_data'']\<rparr> () () None None None None None None (Some ''http://mlflow'')
     None (None :: unit dict option) = Inr self)"
  using
    C4_tracking_validation [where run_id = "Some ''abc''" and tracking_uri = None
      and c = "()" and p = "()" and n = None and cls = "\<lparr>class_name = ''CleanStep'', default_requires = [''meter_data''],
       default_provides = [''clean_data'']\<rparr>" and rq = None and pv = None
      and ms = None and rb = None and en = None and tg = "None :: unit dict option"]
    C4_tracking_validation [where run_id = "Some ''abc''" and tracking_uri = "Some ''http://mlflow''"
      and c = "()" and p = "()" and n = None and cls = "\<lparr>class_name = ''CleanStep'', default_requires = [''meter_data''],
       default_provides = [''clean_data'']\<rparr>" and rq = None and pv = None
      and ms = None and rb = None and en = None and tg = "None :: unit dict option"]
    C4_tracking_validation [where run_id = None and tracking_uri = None
      and c = "()" and p = "()" and n = None and cls = "\<lparr>class_name = ''CleanStep'', default_requires = [''meter_data''],
       default_provides = [''clean_data'']\<rparr>" and rq = None and pv = None
      and ms = None and rb = None and en = None and tg = "None :: unit dict option"]
    C4_tracking_validation [where run_id = None and tracking_uri = "Some ''http://mlflow''"
      and c = "()" and p = "()" and n = None and cls = "\<lparr>class_name = ''CleanStep'', default_requires = [''meter_data''],
       default_provides = [''clean_data'']\<rparr>" and rq = None and pv = None
      and ms = None and rb = None and en = None and tg = "None :: unit dict option"]
  by simp

subsection \<open>C5: execute, not overridden\<close>

text \<open>
  Claim C5, as amended. A step subclass that does not override \<^verbatim>\<open>execute\<close> cannot be
  instantiated: creating it raises \<^verbatim>\<open>TypeError\<close>, whatever the arguments, so there is
  no step of that class to call \<^verbatim>\<open>execute\<close> on. Where \<^verbatim>\<open>execute\<close> resolves to the
  method of \<^verbatim>\<open>WorkflowStep\<close>, or where the method of the subclass delegates to it
  with \<^verbatim>\<open>super().execute()\<close>, the call raises \<^verbatim>\<open>NotImplementedError\<close>, leaves the
  object as it was, and its message contains the name of the class of the object; a
  subclass with such a delegating method is created as \<^const>\<open>construct\<close> says.
\<close>

theorem C5_execute_abstract:
  "(execute_impl k = None \<longrightarrow>
      instantiate k c p n rq pv ms rb run_id tracking_uri en tg =
        Inl (TypeError (class_name (attrs k)) [''execute''])) \<and>
   (execute_impl k = None \<or> execute_impl k = Some (execute (attrs k)) \<longrightarrow>
      (\<exists>msg. call_execute k self = (Some (NotImplementedError msg), self) \<and>
         sublist (class_name (attrs k)) msg \<and>
         msg = ''`'' @ class_name (attrs k) @
           ''` is a subclass of WorkflowStep andit must implement the `execute` method'')) \<and>
   (execute_impl k = Some (execute (attrs k)) \<longrightarrow>
      instantiate k c p n rq pv ms rb run_id tracking_uri en tg =
        construct (attrs k) c p n rq pv ms rb run_id tracking_uri en tg)"
proof -
  have body: "\<exists>msg. execute (attrs k) self = (Some (NotImplementedError msg), self) \<and>
         sublist (class_name (attrs k)) msg \<and>
         msg = ''`'' @ class_name (attrs k) @
           ''` is a subclass of WorkflowStep andit must implement the `execute` method''"
    unfolding execute_def by (simp add: sublist_appendI del: append.simps)
  show ?thesis
    using body by (auto simp: instantiate_def abstract_methods_def call_execute_def)
qed

theorem C5_execute_abstract_witness:
  "instantiate \<lparr>attrs = \<lparr>class_name = ''CleanStep'', default_requires = [''meter_data''],
       default_provides = [''clean_data'']\<rparr>, execute_impl = None\<rparr>
       () () None None None None None None None None (None :: unit dict option) =
     Inl (TypeError ''CleanStep'' [''execute'']) \<and>
   call_execute \<lparr>attrs = \<lparr>class_name = ''CleanStep'', default_requires = [''meter_data''],
       default_provides = [''clean_data'']\<rparr>, execute_impl = Some (execute \<lparr>class_name = ''CleanStep'', default_requires = [''meter_data''],
       default_provides = [''clean_data'']\<rparr>)\<rparr>
       (Map.empty :: (unit, unit, unit) step_instance) =
     (Some (NotImplementedError
        ''`CleanStep` is a subclass of WorkflowStep andit must implement the `execute` method''),
      Map.empty)"
  using
    C5_execute_abstract [where k = "\<lparr>attrs = \<lparr>class_name = ''CleanStep'', default_requires = [''meter_data''],
       default_provides = [''clean_data'']\<rparr>, execute_impl = None\<rparr>"
      and c = "()" and p = "()" and n = None and rq = None and pv = None and ms = None
      and rb = None and run_id = None and tracking_uri = None and en = None
      and tg = "None :: unit dict option"
      and self = "Map.empty :: (unit, unit, unit) step_instance"]
    C5_execute_abstract [where k = "\<lparr>attrs = \<lparr>class_name = ''CleanStep'', default_requires = [''meter_data''],
       default_provides = [''clean_data'']\<rparr>, execute_impl = Some (execute \<lparr>class_name = ''CleanStep'', default_requires = [''meter_data''],
       default_provides = [''clean_data'']\<rparr>)\<rparr>"
      and c = "()" and p = "()" and n = None and rq = None and pv = None and ms = None
      and rb = None and run_id = None and tracking_uri = None and en = None
      and tg = "None :: unit dict option"
      and self = "Map.empty :: (unit, unit, unit) step_instance"]
  by simp

text \<open>
  The claim as stated fails: creating a step of a subclass that does not override
  \<^verbatim>\<open>execute\<close> and calling \<^verbatim>\<open>execute\<close> on it ends at the creation, with \<^verbatim>\<open>TypeError\<close>,
  not at the call with \<^verbatim>\<open>NotImplementedError\<close>.
\<close>

theorem C5_execute_not_overridden_counterexample:
  "(case instantiate \<lparr>attrs = \<lparr>class_name = ''CleanStep'', default_requires = [''meter_data''],
       default_provides = [''clean_data'']\<rparr>, execute_impl = None\<rparr>
       () () None None None None None None None None (None :: unit dict option) of
      Inl e \<Rightarrow> Some e
    | Inr self \<Rightarrow> fst (call_execute \<lparr>attrs = \<lparr>class_name = ''CleanStep'', default_requires = [''meter_data''],
       default_provides = [''clean_data'']\<rparr>, execute_impl = None\<rparr> self)) =
     Some (TypeError ''CleanStep'' [''execute''])"
  by (simp add: instantiate_def abstract_methods_def)

subsection \<open>C6: rebind, tags and experiment_name\<close>

text \<open>
  Claim C6. The new step's \<^verbatim>\<open>rebind\<close> and \<^verbatim>\<open>tags\<close> are the empty dictionary when the
  argument is \<^verbatim>\<open>None\<close> and the dictionary passed otherwise, the empty one included;
  its \<^verbatim>\<open>experiment_name\<close> is \<^verbatim>\<open>Default\<close> when the argument is \<^verbatim>\<open>None\<close> and the string
  passed otherwise.
\<close>

theorem C6_optional_argument_defaults:
  assumes "run_id = None \<or> tracking_uri \<noteq> None"
  shows "\<exists>self. construct cls c p n rq pv ms rb run_id tracking_uri en tg = Inr self \<and>
     self ''rebind'' = Some (PyDict (case rb of None \<Rightarrow> [] | Some r \<Rightarrow> r)) \<and>
     self ''tags'' = Some (PyTags (case tg of None \<Rightarrow> [] | Some t \<Rightarrow> t)) \<and>
     self ''experiment_name'' = Some (PyStr (case en of None \<Rightarrow> ''Default'' | Some e \<Rightarrow> e))"
  using assms by (simp add: construct_returns)

theorem C6_optional_argument_defaults_witness:
  "(\<exists>self. construct \<lparr>class_name = ''CleanStep'', default_requires = [''meter_data''],
       default_provides = [''clean_data'']\<rparr> () () None None None None None None None None
       (Some ([] :: unit dict)) = Inr self \<and>
     self ''rebind'' = Some (PyDict []) \<and> self ''tags'' = Some (PyTags []) \<and>
     self ''experiment_name'' = Some (PyStr ''Default'')) \<and>
   (\<exists>self. construct \<lparr>class_name = ''CleanStep'', default_requires = [''meter_data''],
       default_provides = [''clean_data'']\<rparr> () () None None None None (Some [(''kWh'', ''consumption'')])
       None None (Some '''') (Some [(''site'', ())]) = Inr self \<and>
     self ''rebind'' = Some (PyDict [(''kWh'', ''consumption'')]) \<and>
     self ''tags'' = Some (PyTags [(''site'', ())]) \<and>
     self ''experiment_name'' = Some (PyStr ''''))"
  using
    C6_optional_argument_defaults [where run_id = None and tracking_uri = None
      and c = "()" and p = "()" and n = None and cls = "\<lparr>class_name = ''CleanStep'', default_requires = [''meter_data''],
       default_provides = [''clean_data'']\<rparr>" and rq = None and pv = None
      and ms = None and rb = None and en = None and tg = "Some ([] :: unit dict)"]
    C6_optional_argument_defaults [where run_id = None and tracking_uri = None
      and c = "()" and p = "()" and n = None and cls = "\<lparr>class_name = ''CleanStep'', default_requires = [''meter_data''],
       default_provides = [''clean_data'']\<rparr>" and rq = None and pv = None
      and ms = None and rb = "Some [(''kWh'', ''consumption'')]" and en = "Some ''''"
      and tg = "Some [(''site'', ())]"]
  by simp

subsection \<open>C7: no attribute is set when construction fails\<close>

text \<open>
  Claim C7. When construction fails, \<^verbatim>\<open>__init__\<close> has raised with the attribute
  dictionary of \<^verbatim>\<open>self\<close> as it found it: on the new object, which has no attribute,
  none of the eleven attributes is set. (When construction succeeds, all eleven are:
  \<open>init_populates\<close>.)
\<close>

theorem C7_no_partial_instance:
  assumes "construct cls c p n rq pv ms rb run_id tracking_uri en tg = Inl e"
  shows "init cls self c p n rq pv ms rb run_id tracking_uri en tg = (Some e, self) \<and>
         snd (init cls Map.empty c p n rq pv ms rb run_id tracking_uri en tg) = Map.empty"
proof (cases "run_id = None \<or> tracking_uri \<noteq> None")
  case True
  with assms show ?thesis by (simp add: construct_returns)
next
  case False
  then obtain r where "run_id = Some r" "tracking_uri = None" by auto
  with assms show ?thesis by (simp add: construct_raises init_raises)
qed

theorem C7_no_partial_instance_witness:
  "construct \<lparr>class_name = ''CleanStep'', default_requires = [''meter_data''],
       default_provides = [''clean_data'']\<rparr> () () None None None (Some ''train'') None (Some ''abc'') None None
     (None :: unit dict option) =
     Inl (ValueError ''If tracking is enabled, a `tracking_uri` must be provided'') \<and>
   snd (init \<lparr>class_name = ''CleanStep'', default_requires = [''meter_data''],
       default_provides = [''clean_data'']\<rparr> Map.empty () () None None None (Some ''train'') None (Some ''abc'') None None
     (None :: unit dict option)) = Map.empty"
proof -
  have failed: "construct \<lparr>class_name = ''CleanStep'', default_requires = [''meter_data''],
       default_provides = [''clean_data'']\<rparr> () () None None None (Some ''train'') None (Some ''abc'') None None
     (None :: unit dict option) =
     Inl (ValueError ''If tracking is enabled, a `tracking_uri` must be provided'')"
    by (simp add: construct_def init_def)
  from C7_no_partial_instance [OF failed, of Map.empty] failed show ?thesis by simp
qed

subsection \<open>C9: an empty run_id\<close>

text \<open>
  Claim C9. With \<^verbatim>\<open>run_id\<close> the empty string and \<^verbatim>\<open>tracking_uri\<close> \<^verbatim>\<open>None\<close>, construction
  raises the invalid-configuration error: the test is \<^verbatim>\<open>run_id is not None\<close>.
\<close>

theorem C9_empty_run_id_raises:
  "construct cls c p n rq pv ms rb (Some '''') None en tg =
     Inl (ValueError ''If tracking is enabled, a `tracking_uri` must be provided'')"
  by (rule construct_raises)

subsection \<open>C10: an empty ml_stage\<close>

text \<open>
  Claim C10. With \<^verbatim>\<open>ml_stage\<close> the empty string, \<^verbatim>\<open>requires\<close> and \<^verbatim>\<open>provides\<close> are the
  dictionaries of the construction without a stage: the argument where it is a
  non-empty dictionary, the identity over the default list otherwise, with nothing
  appended to any value. The attribute \<^verbatim>\<open>ml_stage\<close> is the empty string, not \<^verbatim>\<open>None\<close>.
\<close>

theorem C10_empty_stage_no_suffix:
  assumes "run_id = None \<or> tracking_uri \<noteq> None"
  shows "\<exists>self self0.
     construct cls c p n rq pv (Some '''') rb run_id tracking_uri en tg = Inr self \<and>
     construct cls c p n rq pv None rb run_id tracking_uri en tg = Inr self0 \<and>
     self ''requires'' = self0 ''requires'' \<and>
     self ''provides'' = self0 ''provides'' \<and>
     self ''requires'' = Some (PyDict (case rq of None \<Rightarrow> identity_dict (default_requires cls)
        | Some m \<Rightarrow> if m = [] then identity_dict (default_requires cls) else m)) \<and>
     self ''provides'' = Some (PyDict (case pv of None \<Rightarrow> identity_dict (default_provides cls)
        | Some m \<Rightarrow> if m = [] then identity_dict (default_provides cls) else m)) \<and>
     self ''ml_stage'' = Some (PyStr '''') \<and> self0 ''ml_stage'' = Some PyNone"
  using assms
  by (simp add: construct_returns resolved_empty_stage resolved_no_stage opt_str_def)

theorem C10_empty_stage_no_suffix_witness:
  "\<exists>self. construct \<lparr>class_name = ''CleanStep'', default_requires = [''meter_data''],
       default_provides = [''clean_data'']\<rparr> () () None (Some [(''raw'', ''sensor_feed'')]) None (Some '''') None
       None None None (None :: unit dict option) = Inr self \<and>
     self ''requires'' = Some (PyDict [(''raw'', ''sensor_feed'')]) \<and>
     self ''provides'' = Some (PyDict [(''clean_data'', ''clean_data'')]) \<and>
     self ''ml_stage'' = Some (PyStr '''')"
  using C10_empty_stage_no_suffix [where run_id = None and tracking_uri = None
    and c = "()" and p = "()" and n = None and cls = "\<lparr>class_name = ''CleanStep'', default_requires = [''meter_data''],
       default_provides = [''clean_data'']\<rparr>"
    and rq = "Some [(''raw'', ''sensor_feed'')]" and pv = None and rb = None and en = None
    and tg = "None :: unit dict option"]
  by (auto simp: identity_dict_def)

end
